theory Spec2Isabelle
  imports Complex_Main "HOL-Library.Log_Nat"
begin

section \<open>Data model\<close>

text \<open>
  The cart service of QKART (\<^verbatim>\<open>cart.service.js\<close>) works on three Mongo collections
  through the Mongoose models \<^verbatim>\<open>Cart\<close>, \<^verbatim>\<open>Product\<close> and \<^verbatim>\<open>User\<close>.
\<close>

datatype httpStatus = BAD_REQUEST | NOT_FOUND | INTERNAL_SERVER_ERROR

text \<open>
  What an operation can throw. Modelled from the spec: the class \<^verbatim>\<open>ApiError\<close>
  (\<^verbatim>\<open>utils/ApiError.js\<close>) is not among the sources. An \<open>ApiError\<close> is what the service
  passes to \<^verbatim>\<open>new ApiError(statusCode, message)\<close>: the status, which section 7 maps to
  the error kinds (404 NotFound, 400 InvalidInput, 500 InternalFailure), and the message,
  absent in one call. A \<open>CastError\<close> is the error with which Mongoose rejects a query
  whose \<^verbatim>\<open>_id\<close> cannot be cast to an ObjectId; it carries the value that failed. A
  \<open>ValidationError\<close> is the error with which \<^verbatim>\<open>save()\<close> rejects a document that has
  been given a value its schema refuses; it carries the name of the field.
\<close>

datatype error = ApiError httpStatus "string option" | CastError string | ValidationError string

subsection \<open>Numbers\<close>

text \<open>
  \<^verbatim>\<open>walletMoney\<close>, \<^verbatim>\<open>cost\<close> and \<^verbatim>\<open>quantity\<close> are JavaScript numbers: IEEE 754
  binary64. A number is a finite double \<open>Fin x\<close>, with \<open>x\<close> its exact value,
  \<^verbatim>\<open>Infinity\<close> (\<open>PInf\<close>), \<^verbatim>\<open>-Infinity\<close> (\<open>NInf\<close>) or \<^verbatim>\<open>NaN\<close>. The two zeros
  are one value: they are equal in JavaScript and neither is less than 0. The operations
  below round the exact result, so on doubles they are the operations of IEEE 754.

  A field of type \<^verbatim>\<open>Number\<close> holds any of these but \<^verbatim>\<open>NaN\<close>: Mongoose's cast to
  Number refuses it, the assignment is not made, and the next \<^verbatim>\<open>save()\<close> of the
  document rejects with a \<open>ValidationError\<close>.
\<close>

datatype number = Fin real | PInf | NInf | NaN

text \<open>\<open>pow2 k\<close> is \<open>2\<close> to the power \<open>k\<close>, for an integer \<open>k\<close>.\<close>

definition pow2 :: "int \<Rightarrow> real" where
  "pow2 k = (if 0 \<le> k then 2 ^ nat k else 1 / 2 ^ nat (- k))"

text \<open>
  The binary exponent of \<open>x \<noteq> 0\<close>: the \<open>e\<close> with \<open>2\<^sup>e \<le> \<bar>x\<bar> < 2\<^sup>e\<^sup>+\<^sup>1\<close>, read off
  the bit length of the integer part of \<open>\<bar>x\<bar>\<close>, or of \<open>1 / \<bar>x\<bar>\<close> when \<open>\<bar>x\<bar> < 1\<close>.
\<close>

definition expo :: "real \<Rightarrow> int" where
  "expo x =
     (let a = \<bar>x\<bar> in
      if 1 \<le> a then bitlen \<lfloor>a\<rfloor> - 1
      else (let k = bitlen \<lfloor>1 / a\<rfloor> - 1 in if 1 / a = pow2 k then - k else - k - 1))"

text \<open>
  The distance between the doubles around \<open>x\<close>: 52 fraction bits below the exponent,
  and the exponent is never below -1022 (the subnormal range).
\<close>

definition ulp :: "real \<Rightarrow> real" where
  "ulp x = pow2 (max (expo x) (- 1022) - 52)"

text \<open>Rounding to the nearest integer, a tie going to the even one.\<close>

definition roundHalfEven :: "real \<Rightarrow> int" where
  "roundHalfEven q =
     (let f = \<lfloor>q\<rfloor>; r = q - of_int f in
      if r < 1 / 2 then f else if 1 / 2 < r then f + 1 else if even f then f else f + 1)"

text \<open>The double nearest to \<open>x\<close>, were the exponent unbounded above.\<close>

definition nearest :: "real \<Rightarrow> real" where
  "nearest x = (if x = 0 then 0 else of_int (roundHalfEven (x / ulp x)) * ulp x)"

text \<open>
  The result of an operation whose exact value is \<open>x\<close>: rounded to nearest, ties to
  even, and an infinity when the rounded value is out of range.
\<close>

definition num_round :: "real \<Rightarrow> number" where
  "num_round x =
     (let y = nearest x in
      if 2 ^ 1024 \<le> y then PInf else if y \<le> - (2 ^ 1024) then NInf else Fin y)"

text \<open>\<^verbatim>\<open>a + b\<close>\<close>

fun num_add :: "number \<Rightarrow> number \<Rightarrow> number" where
  "num_add NaN b = NaN"
| "num_add a NaN = NaN"
| "num_add PInf NInf = NaN"
| "num_add NInf PInf = NaN"
| "num_add PInf b = PInf"
| "num_add a PInf = PInf"
| "num_add NInf b = NInf"
| "num_add a NInf = NInf"
| "num_add (Fin a) (Fin b) = num_round (a + b)"

text \<open>\<^verbatim>\<open>a - b\<close>\<close>

fun num_sub :: "number \<Rightarrow> number \<Rightarrow> number" where
  "num_sub NaN b = NaN"
| "num_sub a NaN = NaN"
| "num_sub PInf PInf = NaN"
| "num_sub NInf NInf = NaN"
| "num_sub PInf b = PInf"
| "num_sub a PInf = NInf"
| "num_sub NInf b = NInf"
| "num_sub a NInf = PInf"
| "num_sub (Fin a) (Fin b) = num_round (a - b)"

text \<open>\<^verbatim>\<open>a * b\<close>\<close>

fun num_mul :: "number \<Rightarrow> number \<Rightarrow> number" where
  "num_mul NaN b = NaN"
| "num_mul a NaN = NaN"
| "num_mul (Fin a) (Fin b) = num_round (a * b)"
| "num_mul (Fin a) PInf = (if a = 0 then NaN else if 0 < a then PInf else NInf)"
| "num_mul (Fin a) NInf = (if a = 0 then NaN else if 0 < a then NInf else PInf)"
| "num_mul PInf (Fin b) = (if b = 0 then NaN else if 0 < b then PInf else NInf)"
| "num_mul NInf (Fin b) = (if b = 0 then NaN else if 0 < b then NInf else PInf)"
| "num_mul PInf PInf = PInf"
| "num_mul PInf NInf = NInf"
| "num_mul NInf PInf = NInf"
| "num_mul NInf NInf = PInf"

text \<open>\<^verbatim>\<open>a < 0\<close>\<close>

fun num_lt0 :: "number \<Rightarrow> bool" where
  "num_lt0 (Fin a) = (a < 0)"
| "num_lt0 NInf = True"
| "num_lt0 PInf = False"
| "num_lt0 NaN = False"

subsection \<open>Object identifiers\<close>

text \<open>
  An \<^verbatim>\<open>_id\<close> is an ObjectId: twelve bytes, which \<^verbatim>\<open>toString()\<close> and
  \<^verbatim>\<open>toHexString()\<close> print as 24 hexadecimal digits in lower case. An ObjectId is
  represented by that string. The \<^verbatim>\<open>productId\<close> of a request is a string of bytes.
\<close>

datatype objectId = ObjectId (toHexString: string)

definition isHexDigit :: "char \<Rightarrow> bool" where
  "isHexDigit c \<longleftrightarrow> c \<in> set ''0123456789abcdefABCDEF''"

text \<open>\<^verbatim>\<open>toLowerCase()\<close> on a hexadecimal digit.\<close>

definition lowerHex :: "char \<Rightarrow> char" where
  "lowerHex c =
     (if c = CHR ''A'' then CHR ''a'' else if c = CHR ''B'' then CHR ''b''
      else if c = CHR ''C'' then CHR ''c'' else if c = CHR ''D'' then CHR ''d''
      else if c = CHR ''E'' then CHR ''e'' else if c = CHR ''F'' then CHR ''f'' else c)"

definition hexDigit :: "nat \<Rightarrow> char" where
  "hexDigit n = ''0123456789abcdef'' ! n"

text \<open>The two digits of a byte; \<open>n div 16\<close> and \<open>n mod 16\<close> are below 16.\<close>

definition hexOfByte :: "char \<Rightarrow> string" where
  "hexOfByte c = [hexDigit (of_char c div 16), hexDigit (of_char c mod 16)]"

text \<open>
  The cast that Mongoose applies to the \<^verbatim>\<open>_id\<close> of a query, \<^verbatim>\<open>new ObjectId(value)\<close>
  of the BSON library that Mongoose 5 uses: a string of 12 characters is taken as the
  twelve bytes, a string of 24 hexadecimal digits is read in either case, and anything
  else is refused (\<open>None\<close>), which Mongoose reports as a \<open>CastError\<close>.
\<close>

definition castObjectId :: "string \<Rightarrow> objectId option" where
  "castObjectId v =
     (if length v = 12 then Some (ObjectId (concat (map hexOfByte v)))
      else if length v = 24 \<and> list_all isHexDigit v then Some (ObjectId (map lowerHex v))
      else None)"

text \<open>
  \<^verbatim>\<open>ObjectId.prototype.equals(otherId)\<close> for a string: a valid string of 12 characters
  is compared with the bytes, a valid string of 24 digits is put in lower case and
  compared with \<^verbatim>\<open>toHexString()\<close>, and any other string is not equal.
\<close>

definition ObjectId_equals :: "objectId \<Rightarrow> string \<Rightarrow> bool" where
  "ObjectId_equals oid otherId =
     (if length otherId = 12 then concat (map hexOfByte otherId) = toHexString oid
      else if length otherId = 24 \<and> list_all isHexDigit otherId
        then map lowerHex otherId = toHexString oid
      else False)"

subsection \<open>Documents\<close>

text \<open>The fields of \<^verbatim>\<open>userSchema\<close> (\<^verbatim>\<open>user.model.js\<close>).\<close>

record user =
  name :: string
  email :: string
  password :: string
  walletMoney :: number
  address :: string

text \<open>
  Modelled from the spec: the \<^verbatim>\<open>Product\<close> schema is not among the sources. Section 3
  gives a product an id and a cost; these are the two fields the service reads
  (\<^verbatim>\<open>_id\<close> and \<^verbatim>\<open>cost\<close>).
\<close>

record product =
  product_id :: objectId
  cost :: number

text \<open>
  Modelled from the spec: the \<^verbatim>\<open>Cart\<close> schema is not among the sources. Section 3
  gives a cart an email and an ordered sequence of line items, each a product snapshot
  with a quantity; the service builds a line item as
  \<^verbatim>\<open>{ product: product, quantity: quantity }\<close>.
\<close>

record lineItem =
  product :: product
  quantity :: number

text \<open>
  Modelled from the spec: a cart document, \<^verbatim>\<open>{ email, cartItems }\<close>, of the same
  missing schema.
\<close>

record cart =
  email :: string
  cartItems :: "lineItem list"

text \<open>
  \<^verbatim>\<open>config.default_address\<close>: the configuration module is not among the sources, and
  the configuration is a parameter of the model.
\<close>

record config =
  default_address :: string

text \<open>
  The database. The service finds a cart only by its email and creates one only after
  such a lookup found none, so the cart collection is a finite map from the email to the
  line items of the one cart document of that email. The product collection is a list of
  documents, searched by \<^verbatim>\<open>_id\<close>. The user collection is keyed by the email, which the
  schema declares unique. \<open>cartCreateFails\<close> says whether \<^verbatim>\<open>Cart.create\<close> throws:
  it is the one store failure the service handles itself.
\<close>

record db =
  cartStore :: "string \<rightharpoonup> lineItem list"
  productStore :: "product list"
  userStore :: "string \<rightharpoonup> user"
  cartCreateFails :: bool

section \<open>Store operations\<close>

text \<open>
  What the service calls on the Mongoose models: \<^verbatim>\<open>Cart.findOne({ email })\<close>,
  \<^verbatim>\<open>Cart.create({ email, cartItems })\<close>, \<^verbatim>\<open>cart.save()\<close>,
  \<^verbatim>\<open>Product.findById(productId)\<close> (and \<^verbatim>\<open>Product.findOne({ _id: productId })\<close>) and
  \<^verbatim>\<open>user.save()\<close>. The \<^verbatim>\<open>pre('save')\<close> hook of the user schema returns at once when
  the password is unmodified, which is the case in \<^verbatim>\<open>checkout\<close>.
\<close>

definition Cart_findOne :: "string \<Rightarrow> db \<Rightarrow> cart option" where
  "Cart_findOne e s =
     (case cartStore s e of
        None \<Rightarrow> None
      | Some items \<Rightarrow> Some \<lparr>email = e, cartItems = items\<rparr>)"

definition Cart_create :: "string \<Rightarrow> lineItem list \<Rightarrow> db \<Rightarrow> (cart \<times> db) option" where
  "Cart_create e items s =
     (if cartCreateFails s then None
      else Some (\<lparr>email = e, cartItems = items\<rparr>, s\<lparr>cartStore := (cartStore s)(e \<mapsto> items)\<rparr>))"

definition Cart_save :: "cart \<Rightarrow> db \<Rightarrow> db" where
  "Cart_save c s = s\<lparr>cartStore := (cartStore s)(cart.email c \<mapsto> cartItems c)\<rparr>"

text \<open>
  The query casts \<^verbatim>\<open>productId\<close> first and rejects with a \<open>CastError\<close> when that
  fails; otherwise it returns the product with that \<^verbatim>\<open>_id\<close>, or \<^verbatim>\<open>null\<close>.
\<close>

definition Product_findById :: "string \<Rightarrow> db \<Rightarrow> error + product option" where
  "Product_findById productId s =
     (case castObjectId productId of
        None \<Rightarrow> Inl (CastError productId)
      | Some oid \<Rightarrow> Inr (find (\<lambda>p. product_id p = oid) (productStore s)))"

definition User_save :: "user \<Rightarrow> db \<Rightarrow> db" where
  "User_save u s = s\<lparr>userStore := (userStore s)(user.email u \<mapsto> u)\<rparr>"

text \<open>\<^verbatim>\<open>userSchema.methods.hasSetNonDefaultAddress\<close>\<close>

definition hasSetNonDefaultAddress :: "config \<Rightarrow> user \<Rightarrow> bool" where
  "hasSetNonDefaultAddress cfg u \<longleftrightarrow> address u \<noteq> default_address cfg"

section \<open>The cart service\<close>

text \<open>
  An operation takes the database and returns its outcome with the database it leaves:
  \<open>Inl\<close> is a thrown error (the promise rejects), \<open>Inr\<close> the returned value.
\<close>

subsection \<open>getCartByUser\<close>

text \<open>
  The body of the \<^verbatim>\<open>try\<close> block throws when there is no cart; the \<^verbatim>\<open>catch\<close> block
  returns what was thrown. So the function returns either a cart or an error object.
\<close>

datatype cartOrError = IsCart cart | IsError error

definition getCartByUser_try :: "user \<Rightarrow> db \<Rightarrow> error + cart" where
  "getCartByUser_try u s =
     (case Cart_findOne (user.email u) s of
        None \<Rightarrow> Inl (ApiError NOT_FOUND (Some ''User does not have a cart''))
      | Some c \<Rightarrow> Inr c)"

definition getCartByUser :: "user \<Rightarrow> db \<Rightarrow> (error + cartOrError) \<times> db" where
  "getCartByUser u s =
     (case getCartByUser_try u s of
        Inr c \<Rightarrow> (Inr (IsCart c), s)
      | Inl error \<Rightarrow> (Inr (IsError error), s))"

subsection \<open>addProductToCart\<close>

text \<open>
  The \<^verbatim>\<open>forEach\<close> that sets \<^verbatim>\<open>exist\<close>; its test is
  \<^verbatim>\<open>obj.product._id.toString() === productId.toString()\<close>, an equality of strings.
\<close>

definition existLoop :: "string \<Rightarrow> lineItem list \<Rightarrow> bool" where
  "existLoop productId items =
     fold (\<lambda>obj exist.
             if toHexString (product_id (product obj)) = productId then True else exist)
       items False"

text \<open>
  \<^verbatim>\<open>await Product.findById(productId)\<close> is the first statement and stands outside the
  \<^verbatim>\<open>try\<close> block: when it rejects, so does the function, before any cart is looked up.
  A quantity \<^verbatim>\<open>NaN\<close> is refused by the line item that is pushed, and \<^verbatim>\<open>cart.save()\<close>
  rejects.
\<close>

definition addProductToCart ::
    "user \<Rightarrow> string \<Rightarrow> number \<Rightarrow> db \<Rightarrow> (error + cart) \<times> db" where
  "addProductToCart u productId qty s =
     (case Product_findById productId s of
        Inl e \<Rightarrow> (Inl e, s)
      | Inr found \<Rightarrow>
          (case (case Cart_findOne (user.email u) s of
                   None \<Rightarrow> Cart_create (user.email u) [] s
                 | Some c \<Rightarrow> Some (c, s)) of
             None \<Rightarrow> (Inl (ApiError INTERNAL_SERVER_ERROR None), s)
           | Some (c, s1) \<Rightarrow>
               if existLoop productId (cartItems c) then
                 (Inl (ApiError BAD_REQUEST (Some
                    ''Product already in cart. Use the cart sidebar to update or remove product from cart'')),
                  s1)
               else
                 (case found of
                    None \<Rightarrow>
                      (Inl (ApiError BAD_REQUEST (Some ''Product doesn't exist in database'')),
                       s1)
                  | Some p \<Rightarrow>
                      if qty = NaN then (Inl (ValidationError ''quantity''), s1)
                      else
                        (let c' = c\<lparr>cartItems :=
                               cartItems c @ [\<lparr>product = p, quantity = qty\<rparr>]\<rparr>
                         in (Inr c', Cart_save c' s1)))))"

subsection \<open>updateProductInCart\<close>

text \<open>
  The cart is looked up first; \<^verbatim>\<open>Product.findOne({ _id: productId })\<close> casts as
  \<^verbatim>\<open>findById\<close> does. The \<^verbatim>\<open>find\<close> and the \<^verbatim>\<open>forEach\<close> compare
  \<^verbatim>\<open>obj.product._id.toString()\<close> with \<^verbatim>\<open>productId.toString()\<close>. A quantity
  \<^verbatim>\<open>NaN\<close> is refused by the line item, and \<^verbatim>\<open>cart.save()\<close> rejects.
\<close>

definition updateProductInCart ::
    "user \<Rightarrow> string \<Rightarrow> number \<Rightarrow> db \<Rightarrow> (error + cart) \<times> db" where
  "updateProductInCart u productId qty s =
     (case Cart_findOne (user.email u) s of
        None \<Rightarrow>
          (Inl (ApiError BAD_REQUEST (Some
             ''User does not have a cart. Use POST to create cart and add a product'')), s)
      | Some c \<Rightarrow>
          (case Product_findById productId s of
             Inl e \<Rightarrow> (Inl e, s)
           | Inr None \<Rightarrow>
               (Inl (ApiError BAD_REQUEST (Some ''Product doesn't exist in database'')), s)
           | Inr (Some p) \<Rightarrow>
               (case find (\<lambda>obj. toHexString (product_id (product obj)) = productId)
                       (cartItems c) of
                  None \<Rightarrow> (Inl (ApiError BAD_REQUEST (Some ''Product not in cart'')), s)
                | Some exists \<Rightarrow>
                    if qty = NaN then (Inl (ValidationError ''quantity''), s)
                    else
                      (let c' = c\<lparr>cartItems :=
                             map (\<lambda>obj. if toHexString (product_id (product obj)) = productId
                                         then obj\<lparr>quantity := qty\<rparr> else obj)
                               (cartItems c)\<rparr>
                       in (Inr c', Cart_save c' s)))))"

subsection \<open>deleteProductFromCart\<close>

text \<open>
  The \<^verbatim>\<open>forEach((obj, index) => ...)\<close> that sets \<^verbatim>\<open>exists\<close> and \<^verbatim>\<open>pos\<close>: the loop
  does not stop at a match, so \<^verbatim>\<open>pos\<close> ends at the last matching index. Its test is
  \<^verbatim>\<open>obj.product._id.equals(productId)\<close>.
\<close>

fun posLoop :: "string \<Rightarrow> lineItem list \<Rightarrow> nat \<Rightarrow> bool \<times> nat \<Rightarrow> bool \<times> nat" where
  "posLoop productId [] index acc = acc"
| "posLoop productId (obj # objs) index acc =
     posLoop productId objs (Suc index)
       (if ObjectId_equals (product_id (product obj)) productId then (True, index) else acc)"

text \<open>\<^verbatim>\<open>array.splice(pos, 1)\<close>: nothing is removed when \<^verbatim>\<open>pos\<close> is past the end.\<close>

definition splice1 :: "nat \<Rightarrow> 'a list \<Rightarrow> 'a list" where
  "splice1 pos xs = take pos xs @ drop (Suc pos) xs"

definition deleteProductFromCart :: "user \<Rightarrow> string \<Rightarrow> db \<Rightarrow> (error + unit) \<times> db" where
  "deleteProductFromCart u productId s =
     (case Cart_findOne (user.email u) s of
        None \<Rightarrow> (Inl (ApiError BAD_REQUEST (Some ''User does not have a cart'')), s)
      | Some c \<Rightarrow>
          (case posLoop productId (cartItems c) 0 (False, 0) of
             (exists, pos) \<Rightarrow>
               if exists = False then
                 (Inl (ApiError BAD_REQUEST (Some ''Product not in cart'')), s)
               else
                 (Inr (), Cart_save (c\<lparr>cartItems := splice1 pos (cartItems c)\<rparr>) s)))"

subsection \<open>checkout\<close>

text \<open>
  The \<^verbatim>\<open>forEach\<close> that accumulates \<^verbatim>\<open>total\<close>, starting from 0; each product and each
  sum is rounded.
\<close>

definition totalLoop :: "lineItem list \<Rightarrow> number" where
  "totalLoop items =
     fold (\<lambda>obj total. num_add total (num_mul (cost (product obj)) (quantity obj)))
       items (Fin 0)"

text \<open>
  \<^verbatim>\<open>checkout\<close> assigns to \<^verbatim>\<open>user.walletMoney\<close>, so the user object it leaves is part of
  the result, next to the database. A balance \<^verbatim>\<open>NaN\<close>, which is not less than 0, is
  refused by the field, and \<^verbatim>\<open>user.save()\<close> rejects before the cart is touched.
\<close>

definition checkout :: "config \<Rightarrow> user \<Rightarrow> db \<Rightarrow> (error + cart) \<times> user \<times> db" where
  "checkout cfg u s =
     (case Cart_findOne (user.email u) s of
        None \<Rightarrow> (Inl (ApiError NOT_FOUND (Some ''Cart not found'')), u, s)
      | Some c \<Rightarrow>
          if length (cartItems c) = 0 then
            (Inl (ApiError BAD_REQUEST (Some ''No products in cart'')), u, s)
          else if \<not> hasSetNonDefaultAddress cfg u then
            (Inl (ApiError BAD_REQUEST (Some ''No valid address'')), u, s)
          else
            (let total = totalLoop (cartItems c);
                 finalBalance = num_sub (walletMoney u) total
             in if num_lt0 finalBalance then
                  (Inl (ApiError BAD_REQUEST (Some ''Insufficient balance'')), u, s)
                else if finalBalance = NaN then
                  (Inl (ValidationError ''walletMoney''), u, s)
                else
                  (let u' = u\<lparr>walletMoney := finalBalance\<rparr>;
                       s1 = User_save u' s;
                       c' = c\<lparr>cartItems := []\<rparr>
                   in (Inr c', u', Cart_save c' s1))))"

section \<open>Properties of carts\<close>

text \<open>
  A line item for \<open>productId\<close>: one whose product has the \<^verbatim>\<open>_id\<close> that \<open>productId\<close>
  denotes.
\<close>

definition isLineItemFor :: "string \<Rightarrow> lineItem \<Rightarrow> bool" where
  "isLineItemFor productId obj \<longleftrightarrow> castObjectId productId = Some (product_id (product obj))"

text \<open>
  The spelling of an identifier that \<^verbatim>\<open>toString()\<close> prints: the cast of the string
  is the ObjectId that prints as this very string.
\<close>

definition canonicalId :: "string \<Rightarrow> bool" where
  "canonicalId productId \<longleftrightarrow> castObjectId productId = Some (ObjectId productId)"

text \<open>At most one line item per distinct product id.\<close>

definition lineItemsUnique :: "lineItem list \<Rightarrow> bool" where
  "lineItemsUnique items = distinct (map (\<lambda>obj. product_id (product obj)) items)"

text \<open>The cart stored for an email, if there is one, has unique line items.\<close>

definition cartUnique :: "string \<Rightarrow> db \<Rightarrow> bool" where
  "cartUnique e s = (case cartStore s e of None \<Rightarrow> True | Some items \<Rightarrow> lineItemsUnique items)"

text \<open>The exact value of a finite number.\<close>

fun val :: "number \<Rightarrow> real" where
  "val (Fin x) = x"
| "val PInf = 0"
| "val NInf = 0"
| "val NaN = 0"

text \<open>A number that is a natural number.\<close>

fun isNat :: "number \<Rightarrow> bool" where
  "isNat (Fin x) = (0 \<le> x \<and> of_int \<lfloor>x\<rfloor> = x)"
| "isNat PInf = False"
| "isNat NInf = False"
| "isNat NaN = False"

text \<open>
  The total of a cart as the specification writes it: the sum, over the line items, of
  cost times quantity, in exact arithmetic.
\<close>

definition cartTotal :: "lineItem list \<Rightarrow> real" where
  "cartTotal items = (\<Sum>obj\<leftarrow>items. val (cost (product obj)) * val (quantity obj))"

text \<open>
  Amounts on which double arithmetic is exact: the wallet, the costs and the quantities
  are natural numbers, and the wallet and the total are at most \<open>2\<^sup>5\<^sup>3\<close>.
\<close>

definition safeAmounts :: "user \<Rightarrow> lineItem list \<Rightarrow> bool" where
  "safeAmounts u items \<longleftrightarrow>
     isNat (walletMoney u) \<and> val (walletMoney u) \<le> 2 ^ 53
     \<and> list_all (\<lambda>obj. isNat (cost (product obj)) \<and> isNat (quantity obj)) items
     \<and> cartTotal items \<le> 2 ^ 53"

section \<open>Example data\<close>

definition cfg0 :: config where
  "cfg0 = \<lparr>default_address = ''ADDRESS_NOT_SET''\<rparr>"

definition alice :: user where
  "alice = \<lparr>name = ''Alice'', email = ''alice@example.com'', password = ''secret123'',
            walletMoney = Fin 500, address = ''12 Main Street''\<rparr>"

definition pen :: product where
  "pen = \<lparr>product_id = ObjectId ''5f71c1ca04c69a5874e9fd45'', cost = Fin 100\<rparr>"

definition ink :: product where
  "ink = \<lparr>product_id = ObjectId ''5f71c1ca04c69a5874e9fd46'', cost = Fin 50\<rparr>"

text \<open>A catalogue of two products; Alice has no cart.\<close>

definition noCartDb :: db where
  "noCartDb = \<lparr>cartStore = Map.empty, productStore = [pen, ink],
               userStore = [''alice@example.com'' \<mapsto> alice], cartCreateFails = False\<rparr>"

text \<open>Alice's cart holds three pens.\<close>

definition penDb :: db where
  "penDb = noCartDb\<lparr>cartStore := [''alice@example.com'' \<mapsto> [\<lparr>product = pen, quantity = Fin 3\<rparr>]]\<rparr>"

text \<open>Alice's cart holds three pens and one ink.\<close>

definition penInkDb :: db where
  "penInkDb = noCartDb\<lparr>cartStore := [''alice@example.com'' \<mapsto>
      [\<lparr>product = pen, quantity = Fin 3\<rparr>, \<lparr>product = ink, quantity = Fin 1\<rparr>]]\<rparr>"

text \<open>Alice's cart is empty.\<close>

definition emptyCartDb :: db where
  "emptyCartDb = noCartDb\<lparr>cartStore := [''alice@example.com'' \<mapsto> []]\<rparr>"

text \<open>
  Amounts beyond \<open>2\<^sup>5\<^sup>3\<close>: a wallet of \<open>10\<^sup>1\<^sup>6\<close>, a coin of cost 1 and a jewel of cost
  \<open>10\<^sup>1\<^sup>6\<close>.
\<close>

definition rich :: user where
  "rich = alice\<lparr>walletMoney := Fin 10000000000000000\<rparr>"

definition coin :: product where
  "coin = \<lparr>product_id = ObjectId ''5f71c1ca04c69a5874e9fd47'', cost = Fin 1\<rparr>"

definition jewel :: product where
  "jewel = \<lparr>product_id = ObjectId ''5f71c1ca04c69a5874e9fd48'', cost = Fin 10000000000000000\<rparr>"

text \<open>The cart holds one coin.\<close>

definition coinDb :: db where
  "coinDb = noCartDb\<lparr>cartStore := [''alice@example.com'' \<mapsto> [\<lparr>product = coin, quantity = Fin 1\<rparr>]]\<rparr>"

text \<open>The cart holds one jewel and one coin.\<close>

definition jewelCoinDb :: db where
  "jewelCoinDb = noCartDb\<lparr>cartStore := [''alice@example.com'' \<mapsto>
      [\<lparr>product = jewel, quantity = Fin 1\<rparr>, \<lparr>product = coin, quantity = Fin 1\<rparr>]]\<rparr>"

section \<open>Double arithmetic\<close>

lemma pow2_pos: "0 < pow2 k"
  by (simp add: pow2_def)

lemma ulp_pos: "0 < ulp x"
  by (simp add: ulp_def pow2_pos)

lemma roundHalfEven_of_int: "roundHalfEven (of_int m) = m"
  by (simp add: roundHalfEven_def)

lemma roundHalfEven_nonneg: "0 \<le> q \<Longrightarrow> 0 \<le> roundHalfEven q"
  by (auto simp: roundHalfEven_def Let_def)

lemma nearest_nonneg: "0 \<le> x \<Longrightarrow> 0 \<le> nearest x"
  using ulp_pos [of x] by (simp add: nearest_def roundHalfEven_nonneg)

text \<open>Rounding a value that is not negative gives a number that is not negative.\<close>

lemma num_round_nonneg: "0 \<le> x \<Longrightarrow> \<not> num_lt0 (num_round x)"
  using nearest_nonneg [of x] by (auto simp: num_round_def Let_def)

lemma nearest_exact:
  assumes "x = of_int m * ulp x"
  shows "nearest x = x"
proof (cases "x = 0")
  case True
  then show ?thesis by (simp add: nearest_def)
next
  case False
  from assms ulp_pos [of x] have "x / ulp x = of_int m" by (simp add: field_simps)
  with assms False show ?thesis by (simp add: nearest_def roundHalfEven_of_int)
qed

lemma expo_of_int:
  assumes "n \<noteq> 0"
  shows "expo (of_int n) = bitlen \<bar>n\<bar> - 1"
proof -
  from assms have "1 \<le> \<bar>real_of_int n\<bar>" by (simp flip: of_int_abs)
  moreover have "\<lfloor>\<bar>real_of_int n\<bar>\<rfloor> = \<bar>n\<bar>" by (simp flip: of_int_abs)
  ultimately show ?thesis by (simp add: expo_def Let_def)
qed

lemma ulp_divides_int:
  assumes "\<bar>n\<bar> \<le> 2 ^ 53"
  shows "\<exists>m. real_of_int n = of_int m * ulp (of_int n)"
proof (cases "n = 0")
  case True
  then show ?thesis by (intro exI [of _ 0]) simp
next
  case False
  then have pos: "0 < \<bar>n\<bar>" by simp
  let ?e = "bitlen \<bar>n\<bar> - 1"
  have e: "expo (of_int n) = ?e" using False by (rule expo_of_int)
  from pos have e0: "0 \<le> ?e" by (simp add: bitlen_alt_def)
  from assms have "\<bar>n\<bar> < 2 ^ nat 54" by simp
  then have "bitlen \<bar>n\<bar> \<le> 54" by (simp add: bitlen_le_iff_power)
  then have e53: "?e \<le> 53" by simp
  from e0 have u: "ulp (of_int n) = pow2 (?e - 52)" by (simp add: ulp_def e max_def)
  show ?thesis
  proof (cases "?e = 53")
    case True
    from bitlen_bounds [OF pos] True have "2 ^ 53 \<le> \<bar>n\<bar>" by simp
    with assms have "\<bar>n\<bar> = 2 ^ 53" by simp
    then have "n = 2 ^ 53 \<or> n = - (2 ^ 53)" by linarith
    moreover from u True have "ulp (of_int n) = 2" by (simp add: pow2_def)
    ultimately show ?thesis
    proof (elim disjE)
      assume "n = 2 ^ 53" and "ulp (real_of_int n) = 2"
      then show ?thesis by (intro exI [of _ "2 ^ 52"]) simp
    next
      assume "n = - (2 ^ 53)" and "ulp (real_of_int n) = 2"
      then show ?thesis by (intro exI [of _ "- (2 ^ 52)"]) simp
    qed
  next
    case False
    with e53 have le: "?e \<le> 52" by simp
    then have "pow2 (?e - 52) = 1 / 2 ^ nat (52 - ?e)"
      by (cases "?e = 52") (simp_all add: pow2_def)
    with u have "real_of_int n = of_int (n * 2 ^ nat (52 - ?e)) * ulp (of_int n)"
      by simp
    then show ?thesis by blast
  qed
qed

lemma nearest_of_int: "\<bar>n\<bar> \<le> 2 ^ 53 \<Longrightarrow> nearest (of_int n) = of_int n"
  using ulp_divides_int [of n] nearest_exact by blast

lemma num_round_of_int:
  assumes "\<bar>n\<bar> \<le> 2 ^ 53"
  shows "num_round (of_int n) = Fin (of_int n)"
proof -
  have "(2::int) ^ 53 < 2 ^ 1024" by simp
  with assms have "\<bar>n\<bar> < 2 ^ 1024" by linarith
  then have "real_of_int \<bar>n\<bar> < 2 ^ 1024"
    by (metis of_int_less_iff of_int_numeral of_int_power)
  then have "\<not> 2 ^ 1024 \<le> real_of_int n" and "\<not> real_of_int n \<le> - (2 ^ 1024)"
    by (simp_all flip: of_int_abs)
  with assms show ?thesis by (simp add: num_round_def nearest_of_int)
qed

lemma num_round_not_NaN: "num_round x \<noteq> NaN"
  by (simp add: num_round_def Let_def)

text \<open>An integer of magnitude at most \<open>2\<^sup>5\<^sup>3\<close> is a double: rounding leaves it.\<close>

lemma num_round_Ints:
  assumes "x \<in> \<int>" and "\<bar>x\<bar> \<le> 2 ^ 53"
  shows "num_round x = Fin x"
proof -
  from assms(1) obtain n where n: "x = of_int n" by (rule Ints_cases)
  with assms(2) have "real_of_int \<bar>n\<bar> \<le> 2 ^ 53" by simp
  then have "\<bar>n\<bar> \<le> 2 ^ 53" by (simp only: of_int_le_numeral_power_cancel_iff)
  then show ?thesis unfolding n by (rule num_round_of_int)
qed

lemma isNat_Fin: "isNat n \<Longrightarrow> \<exists>x. n = Fin x \<and> x \<in> \<int> \<and> 0 \<le> x"
  by (cases n) (auto simp: Ints_def intro: exI)

lemma cartTotal_nonneg:
  "list_all (\<lambda>obj. isNat (cost (product obj)) \<and> isNat (quantity obj)) items \<Longrightarrow>
     0 \<le> cartTotal items"
proof (induction items)
  case Nil
  then show ?case by (simp add: cartTotal_def)
next
  case (Cons obj objs)
  from Cons.prems obtain c q where "cost (product obj) = Fin c" "0 \<le> c"
    "quantity obj = Fin q" "0 \<le> q"
    by (auto dest!: isNat_Fin)
  with Cons show ?case by (simp add: cartTotal_def)
qed

lemma cartTotal_Ints:
  "list_all (\<lambda>obj. isNat (cost (product obj)) \<and> isNat (quantity obj)) items \<Longrightarrow>
     cartTotal items \<in> \<int>"
proof (induction items)
  case Nil
  then show ?case by (simp add: cartTotal_def)
next
  case (Cons obj objs)
  from Cons.prems obtain c q where "cost (product obj) = Fin c" "c \<in> \<int>"
    "quantity obj = Fin q" "q \<in> \<int>"
    by (auto dest!: isNat_Fin)
  with Cons show ?case by (simp add: cartTotal_def)
qed

text \<open>
  On natural amounts whose sum stays within \<open>2\<^sup>5\<^sup>3\<close> no product and no partial sum is
  rounded: the loop computes the exact total.
\<close>

lemma fold_total_exact:
  assumes "list_all (\<lambda>obj. isNat (cost (product obj)) \<and> isNat (quantity obj)) items"
    and "a \<in> \<int>" and "0 \<le> a" and "a + cartTotal items \<le> 2 ^ 53"
  shows "fold (\<lambda>obj total. num_add total (num_mul (cost (product obj)) (quantity obj)))
           items (Fin a)
         = Fin (a + cartTotal items)"
  using assms
proof (induction items arbitrary: a)
  case Nil
  then show ?case by (simp add: cartTotal_def)
next
  case (Cons obj objs)
  from Cons.prems(1) obtain c q where cq: "cost (product obj) = Fin c" "c \<in> \<int>" "0 \<le> c"
    "quantity obj = Fin q" "q \<in> \<int>" "0 \<le> q"
    by (auto dest!: isNat_Fin)
  from Cons.prems(1) have rest: "list_all (\<lambda>obj. isNat (cost (product obj)) \<and> isNat (quantity obj)) objs"
    by simp
  then have nn: "0 \<le> cartTotal objs" by (rule cartTotal_nonneg)
  have tot: "cartTotal (obj # objs) = c * q + cartTotal objs"
    by (simp add: cartTotal_def cq)
  have cq0: "0 \<le> c * q" using cq by simp
  with Cons.prems(3,4) nn tot have b1: "\<bar>c * q\<bar> \<le> 2 ^ 53" and b2: "\<bar>a + c * q\<bar> \<le> 2 ^ 53"
    by simp_all
  have m: "num_round (c * q) = Fin (c * q)"
    using cq b1 by (simp add: num_round_Ints)
  have s: "num_round (a + c * q) = Fin (a + c * q)"
    using cq Cons.prems(2) b2 by (simp add: num_round_Ints)
  have "fold (\<lambda>obj total. num_add total (num_mul (cost (product obj)) (quantity obj)))
           objs (Fin (a + c * q))
         = Fin (a + c * q + cartTotal objs)"
    using rest cq Cons.prems(2,3,4) cq0 tot by (intro Cons.IH) simp_all
  then show ?case by (simp add: cq m s tot add.assoc)
qed

lemma totalLoop_exact:
  assumes "list_all (\<lambda>obj. isNat (cost (product obj)) \<and> isNat (quantity obj)) items"
    and "cartTotal items \<le> 2 ^ 53"
  shows "totalLoop items = Fin (cartTotal items)"
  using fold_total_exact [OF assms(1), of 0] assms(2) by (simp add: totalLoop_def)

text \<open>With safe amounts the balance is exact, too.\<close>

lemma safe_balance:
  assumes "safeAmounts u items"
  shows "totalLoop items = Fin (cartTotal items)"
    and "num_sub (walletMoney u) (totalLoop items)
         = Fin (val (walletMoney u) - cartTotal items)"
proof -
  from assms have items: "list_all (\<lambda>obj. isNat (cost (product obj)) \<and> isNat (quantity obj)) items"
    and t53: "cartTotal items \<le> 2 ^ 53" and w53: "val (walletMoney u) \<le> 2 ^ 53"
    and wn: "isNat (walletMoney u)"
    by (simp_all add: safeAmounts_def)
  show t: "totalLoop items = Fin (cartTotal items)"
    using items t53 by (rule totalLoop_exact)
  from wn obtain w where w: "walletMoney u = Fin w" "w \<in> \<int>" "0 \<le> w"
    by (auto dest!: isNat_Fin)
  have "0 \<le> cartTotal items" and "cartTotal items \<in> \<int>"
    using items by (rule cartTotal_nonneg, rule cartTotal_Ints)
  with w w53 t53 have "w - cartTotal items \<in> \<int>" and "\<bar>w - cartTotal items\<bar> \<le> 2 ^ 53"
    by simp_all
  then have "num_round (w - cartTotal items) = Fin (w - cartTotal items)"
    by (rule num_round_Ints)
  then show "num_sub (walletMoney u) (totalLoop items)
         = Fin (val (walletMoney u) - cartTotal items)"
    by (simp add: t w)
qed

lemma num_round_0: "num_round 0 = Fin 0"
  by (simp add: num_round_def nearest_def)

lemma num_round_1: "num_round 1 = Fin 1"
  using num_round_of_int [of 1] by simp

lemma num_round_1e16: "num_round 10000000000000000 = Fin 10000000000000000"
  by (simp add: num_round_def nearest_def ulp_def expo_def pow2_def roundHalfEven_def
      compute_bitlen Let_def)

lemma num_round_1e16_plus_1: "num_round 10000000000000001 = Fin 10000000000000000"
  by (simp add: num_round_def nearest_def ulp_def expo_def pow2_def roundHalfEven_def
      compute_bitlen Let_def)

lemma num_round_1e16_minus_1: "num_round 9999999999999999 = Fin 10000000000000000"
  by (simp add: num_round_def nearest_def ulp_def expo_def pow2_def roundHalfEven_def
      compute_bitlen Let_def)

section \<open>Object identifiers\<close>

lemma ObjectId_equals_cast: "ObjectId_equals oid v \<longleftrightarrow> castObjectId v = Some oid"
  by (cases oid) (auto simp: ObjectId_equals_def castObjectId_def)

lemma ObjectId_equals_isLineItemFor:
  "ObjectId_equals (product_id (product obj)) productId \<longleftrightarrow> isLineItemFor productId obj"
  by (simp add: ObjectId_equals_cast isLineItemFor_def)

lemma canonicalId_isLineItemFor:
  "canonicalId productId \<Longrightarrow>
     isLineItemFor productId obj \<longleftrightarrow> toHexString (product_id (product obj)) = productId"
  by (cases "product_id (product obj)") (auto simp: canonicalId_def isLineItemFor_def)

section \<open>The loops\<close>

lemma fold_exist:
  "fold (\<lambda>obj exist. if toHexString (product_id (product obj)) = productId then True else exist)
     items b
   \<longleftrightarrow> b \<or> (\<exists>obj\<in>set items. toHexString (product_id (product obj)) = productId)"
  by (induction items arbitrary: b) auto

lemma existLoop_iff:
  "existLoop productId items
     \<longleftrightarrow> (\<exists>obj\<in>set items. toHexString (product_id (product obj)) = productId)"
  by (simp add: existLoop_def fold_exist)

lemma posLoop_none:
  "\<forall>obj\<in>set items. \<not> isLineItemFor productId obj \<Longrightarrow>
     posLoop productId items index acc = acc"
  by (induction items arbitrary: index acc) (auto simp: ObjectId_equals_isLineItemFor)

text \<open>When some line item matches, the loop ends with the last matching index.\<close>

lemma posLoop_last:
  "\<exists>obj\<in>set items. isLineItemFor productId obj \<Longrightarrow>
     \<exists>pos<length items. posLoop productId items index acc = (True, index + pos)
        \<and> isLineItemFor productId (items ! pos)
        \<and> (\<forall>j<length items. pos < j \<longrightarrow> \<not> isLineItemFor productId (items ! j))"
proof (induction items arbitrary: index acc)
  case Nil
  then show ?case by simp
next
  case (Cons obj objs)
  show ?case
  proof (cases "\<exists>x\<in>set objs. isLineItemFor productId x")
    case True
    from Cons.IH [OF True] obtain pos where pos: "pos < length objs"
      "posLoop productId objs (Suc index)
         (if ObjectId_equals (product_id (product obj)) productId then (True, index) else acc)
       = (True, Suc index + pos)"
      "isLineItemFor productId (objs ! pos)"
      "\<forall>j<length objs. pos < j \<longrightarrow> \<not> isLineItemFor productId (objs ! j)"
      by blast
    have "\<forall>j<length (obj # objs). Suc pos < j \<longrightarrow>
            \<not> isLineItemFor productId ((obj # objs) ! j)"
      using pos(4) by (auto simp: nth_Cons split: nat.splits)
    with pos(1-3) show ?thesis
      by (intro exI [of _ "Suc pos"]) simp
  next
    case False
    then have none: "\<forall>x\<in>set objs. \<not> isLineItemFor productId x" by blast
    with Cons.prems have hit: "isLineItemFor productId obj" by auto
    have "\<forall>j<length (obj # objs). 0 < j \<longrightarrow>
            \<not> isLineItemFor productId ((obj # objs) ! j)"
      using none by (auto simp: nth_Cons split: nat.splits)
    with hit none show ?thesis
      by (intro exI [of _ 0]) (simp add: posLoop_none ObjectId_equals_isLineItemFor)
  qed
qed

section \<open>The stores\<close>


lemma Cart_findOne_None: "cartStore s e = None \<Longrightarrow> Cart_findOne e s = None"
  by (simp add: Cart_findOne_def)

lemma Cart_findOne_Some:
  "cartStore s e = Some items \<Longrightarrow> Cart_findOne e s = Some \<lparr>email = e, cartItems = items\<rparr>"
  by (simp add: Cart_findOne_def)

section \<open>getCartByUser\<close>

lemma getCartByUser_never_throws: "fst (getCartByUser u s) \<noteq> Inl e"
  by (simp add: getCartByUser_def split: sum.splits)

lemma getCartByUser_cart:
  "cartStore s (user.email u) = Some items \<Longrightarrow>
     getCartByUser u s = (Inr (IsCart \<lparr>email = user.email u, cartItems = items\<rparr>), s)"
  by (simp add: getCartByUser_def getCartByUser_try_def Cart_findOne_def)

lemma getCartByUser_no_cart:
  "cartStore s (user.email u) = None \<Longrightarrow>
     getCartByUser u s =
       (Inr (IsError (ApiError NOT_FOUND (Some ''User does not have a cart''))), s)"
  by (simp add: getCartByUser_def getCartByUser_try_def Cart_findOne_def)

text \<open>
  Claim C1: for a user with no cart \<^verbatim>\<open>getCartByUser\<close> fails with NotFound, the failure
  being the operation's error outcome; for a user with a cart it returns that cart and
  changes nothing.

  The second half holds (\<open>getCartByUser_cart\<close>). The first does not hold of the code:
  the \<^verbatim>\<open>catch\<close> block returns the \<^verbatim>\<open>ApiError\<close> it caught, so the call ends normally
  and its value is the error object. Alice has no cart in \<open>noCartDb\<close>, and the outcome
  is \<open>Inr\<close>, a returned value, not \<open>Inl\<close>, a thrown error.
\<close>

theorem getCartByUser_no_cart_returns_error:
  "getCartByUser alice noCartDb =
     (Inr (IsError (ApiError NOT_FOUND (Some ''User does not have a cart''))), noCartDb)"
  by (simp add: getCartByUser_def getCartByUser_try_def Cart_findOne_def noCartDb_def alice_def)

section \<open>checkout: success\<close>

text \<open>
  Claim C2, as stated: when the cart exists and is not empty, the address is not the
  default one and \<open>walletMoney\<close> is at least the total (the sum over the line items of
  cost times quantity), \<^verbatim>\<open>checkout\<close> succeeds and \<open>walletMoney\<close> becomes
  \<open>walletMoney - total\<close>.

  The amounts are doubles and the subtraction is rounded. With a wallet of \<open>10\<^sup>1\<^sup>6\<close> and
  a cart of one coin of cost 1, the total is 1, \<^verbatim>\<open>checkout\<close> succeeds, and the wallet it
  leaves is \<open>10\<^sup>1\<^sup>6\<close>: the difference 9999999999999999 is not a double.
\<close>

theorem checkout_rounds_balance:
  "cartTotal [\<lparr>product = coin, quantity = Fin 1\<rparr>] \<le> val (walletMoney rich)
   \<and> val (walletMoney rich) - cartTotal [\<lparr>product = coin, quantity = Fin 1\<rparr>] = 9999999999999999
   \<and> fst (checkout cfg0 rich coinDb) = Inr \<lparr>email = ''alice@example.com'', cartItems = []\<rparr>
   \<and> walletMoney (fst (snd (checkout cfg0 rich coinDb))) = Fin 10000000000000000
   \<and> walletMoney (fst (snd (checkout cfg0 rich coinDb)))
       \<noteq> Fin (val (walletMoney rich) - cartTotal [\<lparr>product = coin, quantity = Fin 1\<rparr>])"
  by (simp add: checkout_def Cart_findOne_def hasSetNonDefaultAddress_def totalLoop_def
      User_save_def Cart_save_def Let_def cartTotal_def coinDb_def noCartDb_def rich_def
      alice_def cfg0_def coin_def num_round_0 num_round_1 num_round_1e16_minus_1)

text \<open>
  Claim C2, amended: when the cart exists and is not empty and the address is not the
  default one, \<^verbatim>\<open>checkout\<close> succeeds whenever the wallet and the total are finite and
  the total is at most the wallet, the total being the one the loop accumulates in double
  arithmetic: the wallet of the user, in the object and in the store, becomes the double
  \<^verbatim>\<open>walletMoney - total\<close>, which is the exact difference rounded, the stored cart has no
  line items, and the empty cart is returned; nothing else changes. When the wallet, the
  costs and the quantities are natural numbers and the wallet and the exact total are at
  most \<open>2\<^sup>5\<^sup>3\<close>, nothing is rounded: the total is the exact sum and the wallet becomes
  exactly \<open>walletMoney - total\<close>.
\<close>

theorem checkout_success:
  assumes "cartStore s (user.email u) = Some items" and "items \<noteq> []"
    and "address u \<noteq> default_address cfg"
  shows "(walletMoney u = Fin w \<and> totalLoop items = Fin t \<and> t \<le> w \<longrightarrow>
            checkout cfg u s =
              (Inr \<lparr>email = user.email u, cartItems = []\<rparr>,
               u\<lparr>walletMoney := num_round (w - t)\<rparr>,
               s\<lparr>userStore := (userStore s)(user.email u \<mapsto>
                     u\<lparr>walletMoney := num_round (w - t)\<rparr>),
                 cartStore := (cartStore s)(user.email u \<mapsto> [])\<rparr>))
       \<and> (safeAmounts u items \<and> cartTotal items \<le> val (walletMoney u) \<longrightarrow>
            checkout cfg u s =
              (Inr \<lparr>email = user.email u, cartItems = []\<rparr>,
               u\<lparr>walletMoney := Fin (val (walletMoney u) - cartTotal items)\<rparr>,
               s\<lparr>userStore := (userStore s)(user.email u \<mapsto>
                     u\<lparr>walletMoney := Fin (val (walletMoney u) - cartTotal items)\<rparr>),
                 cartStore := (cartStore s)(user.email u \<mapsto> [])\<rparr>))"
proof (intro conjI impI)
  assume a: "walletMoney u = Fin w \<and> totalLoop items = Fin t \<and> t \<le> w"
  then have "\<not> num_lt0 (num_round (w - t))"
    by (simp add: num_round_nonneg)
  moreover have "num_round (w - t) \<noteq> NaN"
    by (rule num_round_not_NaN)
  ultimately show "checkout cfg u s =
              (Inr \<lparr>email = user.email u, cartItems = []\<rparr>,
               u\<lparr>walletMoney := num_round (w - t)\<rparr>,
               s\<lparr>userStore := (userStore s)(user.email u \<mapsto>
                     u\<lparr>walletMoney := num_round (w - t)\<rparr>),
                 cartStore := (cartStore s)(user.email u \<mapsto> [])\<rparr>)"
    using assms a
    by (simp add: checkout_def Cart_findOne_Some hasSetNonDefaultAddress_def
        User_save_def Cart_save_def Let_def)
next
  assume a: "safeAmounts u items \<and> cartTotal items \<le> val (walletMoney u)"
  then have b: "num_sub (walletMoney u) (totalLoop items)
         = Fin (val (walletMoney u) - cartTotal items)"
    by (simp add: safe_balance)
  from a have "\<not> num_lt0 (Fin (val (walletMoney u) - cartTotal items))" by simp
  with assms b show "checkout cfg u s =
              (Inr \<lparr>email = user.email u, cartItems = []\<rparr>,
               u\<lparr>walletMoney := Fin (val (walletMoney u) - cartTotal items)\<rparr>,
               s\<lparr>userStore := (userStore s)(user.email u \<mapsto>
                     u\<lparr>walletMoney := Fin (val (walletMoney u) - cartTotal items)\<rparr>),
                 cartStore := (cartStore s)(user.email u \<mapsto> [])\<rparr>)"
    by (simp add: checkout_def Cart_findOne_Some hasSetNonDefaultAddress_def
        User_save_def Cart_save_def Let_def)
qed

text \<open>
  The scenario of the specification, where the arithmetic is exact: a wallet of 500 and
  one line item of cost 100 and quantity 3 leave a wallet of 200 and an empty cart. And
  the wallet of \<open>10\<^sup>1\<^sup>6\<close> with one coin, where the difference is rounded.
\<close>

theorem checkout_success_witness:
  "checkout cfg0 alice penDb =
     (Inr \<lparr>email = ''alice@example.com'', cartItems = []\<rparr>,
      alice\<lparr>walletMoney := Fin 200\<rparr>,
      penDb\<lparr>userStore := (userStore penDb)(''alice@example.com'' \<mapsto>
            alice\<lparr>walletMoney := Fin 200\<rparr>),
        cartStore := (cartStore penDb)(''alice@example.com'' \<mapsto> [])\<rparr>)
   \<and> checkout cfg0 rich coinDb =
     (Inr \<lparr>email = ''alice@example.com'', cartItems = []\<rparr>,
      rich\<lparr>walletMoney := Fin 10000000000000000\<rparr>,
      coinDb\<lparr>userStore := (userStore coinDb)(''alice@example.com'' \<mapsto>
            rich\<lparr>walletMoney := Fin 10000000000000000\<rparr>),
        cartStore := (cartStore coinDb)(''alice@example.com'' \<mapsto> [])\<rparr>)"
proof
  have safe: "safeAmounts alice [\<lparr>product = pen, quantity = Fin 3\<rparr>]"
    by (simp add: safeAmounts_def cartTotal_def alice_def pen_def)
  from checkout_success [of penDb alice "[\<lparr>product = pen, quantity = Fin 3\<rparr>]" cfg0] safe
  show "checkout cfg0 alice penDb =
     (Inr \<lparr>email = ''alice@example.com'', cartItems = []\<rparr>,
      alice\<lparr>walletMoney := Fin 200\<rparr>,
      penDb\<lparr>userStore := (userStore penDb)(''alice@example.com'' \<mapsto>
            alice\<lparr>walletMoney := Fin 200\<rparr>),
        cartStore := (cartStore penDb)(''alice@example.com'' \<mapsto> [])\<rparr>)"
    by (simp add: penDb_def noCartDb_def alice_def cfg0_def pen_def cartTotal_def)
next
  have t: "totalLoop [\<lparr>product = coin, quantity = Fin 1\<rparr>] = Fin 1"
    by (simp add: totalLoop_def coin_def num_round_1)
  from checkout_success
         [of coinDb rich "[\<lparr>product = coin, quantity = Fin 1\<rparr>]" cfg0 10000000000000000 1]
  show "checkout cfg0 rich coinDb =
     (Inr \<lparr>email = ''alice@example.com'', cartItems = []\<rparr>,
      rich\<lparr>walletMoney := Fin 10000000000000000\<rparr>,
      coinDb\<lparr>userStore := (userStore coinDb)(''alice@example.com'' \<mapsto>
            rich\<lparr>walletMoney := Fin 10000000000000000\<rparr>),
        cartStore := (cartStore coinDb)(''alice@example.com'' \<mapsto> [])\<rparr>)"
    by (simp add: t coinDb_def noCartDb_def rich_def alice_def cfg0_def
        num_round_1e16_minus_1)
qed

section \<open>addProductToCart: unknown product\<close>




section \<open>checkout: failures\<close>

text \<open>
  Claim C4, as stated: for a user whose cart exists and is not empty and whose address is
  set, if \<open>walletMoney - total < 0\<close> then \<^verbatim>\<open>checkout\<close> fails, and a wallet equal to
  the total is enough.

  The total is accumulated in doubles. With a wallet of \<open>10\<^sup>1\<^sup>6\<close> and a cart of one
  jewel of cost \<open>10\<^sup>1\<^sup>6\<close> and one coin of cost 1, the exact total is one more than the
  wallet, but the sum \<open>10\<^sup>1\<^sup>6 + 1\<close> is rounded to \<open>10\<^sup>1\<^sup>6\<close>: the balance is 0 and
  \<^verbatim>\<open>checkout\<close> succeeds.
\<close>

theorem checkout_rounded_total_suffices:
  "val (walletMoney rich)
     - cartTotal [\<lparr>product = jewel, quantity = Fin 1\<rparr>, \<lparr>product = coin, quantity = Fin 1\<rparr>] < 0
   \<and> fst (checkout cfg0 rich jewelCoinDb) = Inr \<lparr>email = ''alice@example.com'', cartItems = []\<rparr>
   \<and> walletMoney (fst (snd (checkout cfg0 rich jewelCoinDb))) = Fin 0
   \<and> cartStore (snd (snd (checkout cfg0 rich jewelCoinDb))) ''alice@example.com'' = Some []"
  by (simp add: checkout_def Cart_findOne_def hasSetNonDefaultAddress_def totalLoop_def
      User_save_def Cart_save_def Let_def cartTotal_def jewelCoinDb_def noCartDb_def rich_def
      alice_def cfg0_def coin_def jewel_def num_round_0 num_round_1 num_round_1e16
      num_round_1e16_plus_1)

text \<open>
  Claim C4, amended: for a user whose cart exists and is not empty and whose address is
  set, if \<^verbatim>\<open>walletMoney - total < 0\<close> in double arithmetic, the total being the one the
  loop accumulates, then \<^verbatim>\<open>checkout\<close> fails with status 400, "Insufficient balance", and
  the user and the database are as before; and a wallet equal to that total is enough:
  \<^verbatim>\<open>checkout\<close> succeeds and leaves a wallet of 0. When the wallet, the costs and the
  quantities are natural numbers and the wallet and the exact total are at most
  \<open>2\<^sup>5\<^sup>3\<close>, both hold of the exact total.
\<close>

theorem checkout_insufficient_balance:
  assumes "cartStore s (user.email u) = Some items" and "items \<noteq> []"
    and "address u \<noteq> default_address cfg"
  shows "(num_lt0 (num_sub (walletMoney u) (totalLoop items)) \<longrightarrow>
            checkout cfg u s =
              (Inl (ApiError BAD_REQUEST (Some ''Insufficient balance'')), u, s))
       \<and> (safeAmounts u items \<and> val (walletMoney u) - cartTotal items < 0 \<longrightarrow>
            checkout cfg u s =
              (Inl (ApiError BAD_REQUEST (Some ''Insufficient balance'')), u, s))
       \<and> (walletMoney u = Fin t \<and> totalLoop items = Fin t \<longrightarrow>
            checkout cfg u s =
              (Inr \<lparr>email = user.email u, cartItems = []\<rparr>,
               u\<lparr>walletMoney := Fin 0\<rparr>,
               s\<lparr>userStore := (userStore s)(user.email u \<mapsto> u\<lparr>walletMoney := Fin 0\<rparr>),
                 cartStore := (cartStore s)(user.email u \<mapsto> [])\<rparr>))
       \<and> (safeAmounts u items \<and> val (walletMoney u) = cartTotal items \<longrightarrow>
            checkout cfg u s =
              (Inr \<lparr>email = user.email u, cartItems = []\<rparr>,
               u\<lparr>walletMoney := Fin 0\<rparr>,
               s\<lparr>userStore := (userStore s)(user.email u \<mapsto> u\<lparr>walletMoney := Fin 0\<rparr>),
                 cartStore := (cartStore s)(user.email u \<mapsto> [])\<rparr>))"
proof (intro conjI impI)
  assume "num_lt0 (num_sub (walletMoney u) (totalLoop items))"
  with assms show "checkout cfg u s =
              (Inl (ApiError BAD_REQUEST (Some ''Insufficient balance'')), u, s)"
    by (simp add: checkout_def Cart_findOne_Some hasSetNonDefaultAddress_def Let_def)
next
  assume a: "safeAmounts u items \<and> val (walletMoney u) - cartTotal items < 0"
  then have "num_sub (walletMoney u) (totalLoop items)
         = Fin (val (walletMoney u) - cartTotal items)"
    by (simp add: safe_balance)
  with a have "num_lt0 (num_sub (walletMoney u) (totalLoop items))" by simp
  with assms show "checkout cfg u s =
              (Inl (ApiError BAD_REQUEST (Some ''Insufficient balance'')), u, s)"
    by (simp add: checkout_def Cart_findOne_Some hasSetNonDefaultAddress_def Let_def)
next
  assume "walletMoney u = Fin t \<and> totalLoop items = Fin t"
  with assms show "checkout cfg u s =
              (Inr \<lparr>email = user.email u, cartItems = []\<rparr>,
               u\<lparr>walletMoney := Fin 0\<rparr>,
               s\<lparr>userStore := (userStore s)(user.email u \<mapsto> u\<lparr>walletMoney := Fin 0\<rparr>),
                 cartStore := (cartStore s)(user.email u \<mapsto> [])\<rparr>)"
    by (simp add: checkout_def Cart_findOne_Some hasSetNonDefaultAddress_def
        User_save_def Cart_save_def Let_def num_round_0)
next
  assume a: "safeAmounts u items \<and> val (walletMoney u) = cartTotal items"
  then have "num_sub (walletMoney u) (totalLoop items) = Fin 0"
    by (simp add: safe_balance)
  with assms show "checkout cfg u s =
              (Inr \<lparr>email = user.email u, cartItems = []\<rparr>,
               u\<lparr>walletMoney := Fin 0\<rparr>,
               s\<lparr>userStore := (userStore s)(user.email u \<mapsto> u\<lparr>walletMoney := Fin 0\<rparr>),
                 cartStore := (cartStore s)(user.email u \<mapsto> [])\<rparr>)"
    by (simp add: checkout_def Cart_findOne_Some hasSetNonDefaultAddress_def
        User_save_def Cart_save_def Let_def)
qed

text \<open>
  Three pens at 100 each: a wallet of 100 is refused and nothing changes; a wallet of
  300 pays for them exactly.
\<close>

theorem checkout_insufficient_balance_witness:
  "checkout cfg0 (alice\<lparr>walletMoney := Fin 100\<rparr>) penDb =
     (Inl (ApiError BAD_REQUEST (Some ''Insufficient balance'')),
      alice\<lparr>walletMoney := Fin 100\<rparr>, penDb)
   \<and> checkout cfg0 (alice\<lparr>walletMoney := Fin 300\<rparr>) penDb =
     (Inr \<lparr>email = ''alice@example.com'', cartItems = []\<rparr>,
      alice\<lparr>walletMoney := Fin 0\<rparr>,
      penDb\<lparr>userStore := (userStore penDb)(''alice@example.com'' \<mapsto>
            alice\<lparr>walletMoney := Fin 0\<rparr>),
        cartStore := (cartStore penDb)(''alice@example.com'' \<mapsto> [])\<rparr>)"
proof
  have safe: "safeAmounts (alice\<lparr>walletMoney := Fin 100\<rparr>) [\<lparr>product = pen, quantity = Fin 3\<rparr>]"
    by (simp add: safeAmounts_def cartTotal_def alice_def pen_def)
  from checkout_insufficient_balance
         [of penDb "alice\<lparr>walletMoney := Fin 100\<rparr>" "[\<lparr>product = pen, quantity = Fin 3\<rparr>]" cfg0]
       safe
  show "checkout cfg0 (alice\<lparr>walletMoney := Fin 100\<rparr>) penDb =
     (Inl (ApiError BAD_REQUEST (Some ''Insufficient balance'')),
      alice\<lparr>walletMoney := Fin 100\<rparr>, penDb)"
    by (simp add: penDb_def noCartDb_def alice_def cfg0_def pen_def cartTotal_def)
next
  have safe: "safeAmounts (alice\<lparr>walletMoney := Fin 300\<rparr>) [\<lparr>product = pen, quantity = Fin 3\<rparr>]"
    by (simp add: safeAmounts_def cartTotal_def alice_def pen_def)
  from checkout_insufficient_balance
         [of penDb "alice\<lparr>walletMoney := Fin 300\<rparr>" "[\<lparr>product = pen, quantity = Fin 3\<rparr>]" cfg0]
       safe
  show "checkout cfg0 (alice\<lparr>walletMoney := Fin 300\<rparr>) penDb =
     (Inr \<lparr>email = ''alice@example.com'', cartItems = []\<rparr>,
      alice\<lparr>walletMoney := Fin 0\<rparr>,
      penDb\<lparr>userStore := (userStore penDb)(''alice@example.com'' \<mapsto>
            alice\<lparr>walletMoney := Fin 0\<rparr>),
        cartStore := (cartStore penDb)(''alice@example.com'' \<mapsto> [])\<rparr>)"
    by (simp add: penDb_def noCartDb_def alice_def cfg0_def pen_def cartTotal_def)
qed

text \<open>
  Claim C5: \<^verbatim>\<open>checkout\<close> tells its precondition failures apart, in this order: without a
  cart it fails with status 404; with a cart of no line items it fails with status 400,
  "No products in cart"; with a cart that has line items and the default address it fails
  with status 400, "No valid address". The first two cases say nothing of the address and
  none says anything of the wallet: the earlier check wins. The user and the database are
  as before.
\<close>

theorem checkout_precondition_failures:
  "(cartStore s (user.email u) = None \<longrightarrow>
      checkout cfg u s = (Inl (ApiError NOT_FOUND (Some ''Cart not found'')), u, s))
   \<and> (cartStore s (user.email u) = Some [] \<longrightarrow>
      checkout cfg u s = (Inl (ApiError BAD_REQUEST (Some ''No products in cart'')), u, s))
   \<and> (cartStore s (user.email u) = Some items \<and> items \<noteq> []
        \<and> address u = default_address cfg \<longrightarrow>
      checkout cfg u s = (Inl (ApiError BAD_REQUEST (Some ''No valid address'')), u, s))"
  by (simp add: checkout_def Cart_findOne_def hasSetNonDefaultAddress_def)

text \<open>
  A user with the default address and an empty wallet fails every later check as well;
  what is reported depends on the cart alone.
\<close>

theorem checkout_precondition_failures_witness:
  "checkout cfg0 (alice\<lparr>address := ''ADDRESS_NOT_SET'', walletMoney := Fin 0\<rparr>) noCartDb =
     (Inl (ApiError NOT_FOUND (Some ''Cart not found'')),
      alice\<lparr>address := ''ADDRESS_NOT_SET'', walletMoney := Fin 0\<rparr>, noCartDb)
   \<and> checkout cfg0 (alice\<lparr>address := ''ADDRESS_NOT_SET'', walletMoney := Fin 0\<rparr>) emptyCartDb =
     (Inl (ApiError BAD_REQUEST (Some ''No products in cart'')),
      alice\<lparr>address := ''ADDRESS_NOT_SET'', walletMoney := Fin 0\<rparr>, emptyCartDb)
   \<and> checkout cfg0 (alice\<lparr>address := ''ADDRESS_NOT_SET'', walletMoney := Fin 0\<rparr>) penDb =
     (Inl (ApiError BAD_REQUEST (Some ''No valid address'')),
      alice\<lparr>address := ''ADDRESS_NOT_SET'', walletMoney := Fin 0\<rparr>, penDb)"
  using checkout_precondition_failures
          [of noCartDb "alice\<lparr>address := ''ADDRESS_NOT_SET'', walletMoney := Fin 0\<rparr>" cfg0]
        checkout_precondition_failures
          [of emptyCartDb "alice\<lparr>address := ''ADDRESS_NOT_SET'', walletMoney := Fin 0\<rparr>" cfg0]
        checkout_precondition_failures
          [of penDb "alice\<lparr>address := ''ADDRESS_NOT_SET'', walletMoney := Fin 0\<rparr>" cfg0
              "[\<lparr>product = pen, quantity = Fin 3\<rparr>]"]
  by (simp add: penDb_def emptyCartDb_def noCartDb_def alice_def cfg0_def)

section \<open>The identifiers of the examples\<close>

lemma cast_upper_pen:
  "castObjectId ''5F71C1CA04C69A5874E9FD45'' = Some (ObjectId ''5f71c1ca04c69a5874e9fd45'')"
  by (simp add: castObjectId_def isHexDigit_def lowerHex_def)

section \<open>addProductToCart: the product is already in the cart\<close>

text \<open>
  When the identifier string of a line item is \<open>productId\<close> itself, the call fails with
  the error of the duplicate and the database is unchanged.
\<close>

lemma addProductToCart_in_cart:
  assumes "castObjectId productId \<noteq> None"
    and "cartStore s (user.email u) = Some items"
    and "\<exists>obj\<in>set items. toHexString (product_id (product obj)) = productId"
  shows "addProductToCart u productId qty s =
     (Inl (ApiError BAD_REQUEST (Some
        ''Product already in cart. Use the cart sidebar to update or remove product from cart'')), s)"
  using assms
  by (auto simp: addProductToCart_def Product_findById_def Cart_findOne_Some existLoop_iff
      split: option.splits)

text \<open>So it does for every line item for \<open>productId\<close> when \<open>productId\<close> is spelt as
  \<^verbatim>\<open>toString()\<close> prints it.\<close>

lemma addProductToCart_in_cart_canonical:
  assumes "canonicalId productId"
    and "cartStore s (user.email u) = Some items"
    and "\<exists>obj\<in>set items. isLineItemFor productId obj"
  shows "addProductToCart u productId qty s =
     (Inl (ApiError BAD_REQUEST (Some
        ''Product already in cart. Use the cart sidebar to update or remove product from cart'')), s)"
proof -
  from assms(1) have "castObjectId productId \<noteq> None" by (simp add: canonicalId_def)
  moreover from assms(1,3)
  have "\<exists>obj\<in>set items. toHexString (product_id (product obj)) = productId"
    by (simp add: canonicalId_isLineItemFor)
  ultimately show ?thesis using assms(2) by (intro addProductToCart_in_cart)
qed

text \<open>
  Claim C6: when the cart of the user already holds a line item for \<open>productId\<close>, a
  second \<^verbatim>\<open>addProductToCart\<close> for it fails with a client error and the cart still holds
  exactly one line item for that product.

  The code does so only when \<open>productId\<close> is spelt as \<^verbatim>\<open>toString()\<close> prints it
  (\<open>addProductToCart_in_cart_canonical\<close>): its test for "already in cart" compares the
  printed identifier with the string \<open>productId\<close>, while the lookup of the product
  casts \<open>productId\<close>. Alice's cart holds pens; with the identifier of the pen in upper
  case the test misses them, the pen is found, and the call succeeds and stores a second
  line item for the pen.
\<close>

theorem addProductToCart_duplicate_upper_case:
  "isLineItemFor ''5F71C1CA04C69A5874E9FD45'' \<lparr>product = pen, quantity = Fin 3\<rparr>
   \<and> cartStore penDb ''alice@example.com'' = Some [\<lparr>product = pen, quantity = Fin 3\<rparr>]
   \<and> addProductToCart alice ''5F71C1CA04C69A5874E9FD45'' (Fin 5) penDb =
       (Inr \<lparr>email = ''alice@example.com'',
             cartItems = [\<lparr>product = pen, quantity = Fin 3\<rparr>, \<lparr>product = pen, quantity = Fin 5\<rparr>]\<rparr>,
        penDb\<lparr>cartStore := [''alice@example.com'' \<mapsto>
             [\<lparr>product = pen, quantity = Fin 3\<rparr>, \<lparr>product = pen, quantity = Fin 5\<rparr>]]\<rparr>)"
  by (simp add: isLineItemFor_def cast_upper_pen addProductToCart_def Product_findById_def
      Cart_findOne_def Cart_save_def existLoop_def penDb_def noCartDb_def alice_def pen_def
      ink_def)

text \<open>
  Claim C7: "already in cart" is checked before "product exists": when the cart holds a
  line item for \<open>productId\<close> and \<open>productId\<close> resolves to no product, the error is
  the one of the duplicate, not the one of the unknown product.

  The code checks in this order, but its first test misses a line item whose
  \<open>productId\<close> is spelt otherwise than \<^verbatim>\<open>toString()\<close> prints it. The pen has left the
  catalogue and Alice's cart still holds pens; with the identifier of the pen in upper
  case the error is the one of the unknown product.
\<close>

theorem addProductToCart_check_order_upper_case:
  "isLineItemFor ''5F71C1CA04C69A5874E9FD45'' \<lparr>product = pen, quantity = Fin 3\<rparr>
   \<and> cartStore (penDb\<lparr>productStore := [ink]\<rparr>) ''alice@example.com''
       = Some [\<lparr>product = pen, quantity = Fin 3\<rparr>]
   \<and> Product_findById ''5F71C1CA04C69A5874E9FD45'' (penDb\<lparr>productStore := [ink]\<rparr>) = Inr None
   \<and> addProductToCart alice ''5F71C1CA04C69A5874E9FD45'' (Fin 1) (penDb\<lparr>productStore := [ink]\<rparr>) =
       (Inl (ApiError BAD_REQUEST (Some ''Product doesn't exist in database'')),
        penDb\<lparr>productStore := [ink]\<rparr>)"
  by (simp add: isLineItemFor_def cast_upper_pen addProductToCart_def Product_findById_def
      Cart_findOne_def existLoop_def penDb_def noCartDb_def alice_def pen_def ink_def)

section \<open>updateProductInCart\<close>

text \<open>
  With \<open>productId\<close> spelt as \<^verbatim>\<open>toString()\<close> prints it, the update does what it should:
  the line items for \<open>productId\<close> get the new quantity, whatever number it is, and every other
  line item stays as it is, at its position.
\<close>

lemma updateProductInCart_canonical:
  assumes "canonicalId productId"
    and "cartStore s (user.email u) = Some items"
    and "Product_findById productId s = Inr (Some p)"
    and "\<exists>obj\<in>set items. isLineItemFor productId obj"
    and "qty \<noteq> NaN"
  shows "updateProductInCart u productId qty s =
     (Inr \<lparr>email = user.email u,
           cartItems = map (\<lambda>obj. if isLineItemFor productId obj
                                   then obj\<lparr>quantity := qty\<rparr> else obj) items\<rparr>,
      s\<lparr>cartStore := (cartStore s)(user.email u \<mapsto>
           map (\<lambda>obj. if isLineItemFor productId obj then obj\<lparr>quantity := qty\<rparr> else obj) items)\<rparr>)"
proof -
  from assms(1,4) have "\<exists>obj\<in>set items. toHexString (product_id (product obj)) = productId"
    by (simp add: canonicalId_isLineItemFor)
  then have "find (\<lambda>obj. toHexString (product_id (product obj)) = productId) items \<noteq> None"
    by (auto simp: find_None_iff)
  then obtain found where
    "find (\<lambda>obj. toHexString (product_id (product obj)) = productId) items = Some found"
    by blast
  with assms(1,2,3,5) show ?thesis
    by (simp add: updateProductInCart_def Cart_findOne_Some Cart_save_def
        canonicalId_isLineItemFor)
qed

text \<open>
  Claim C8: when the cart holds a line item for \<open>productId\<close> and \<open>productId\<close>
  resolves to a product, \<^verbatim>\<open>updateProductInCart\<close> overwrites the quantity of that line
  item and leaves the rest unchanged.

  The code does so only when \<open>productId\<close> is spelt as \<^verbatim>\<open>toString()\<close> prints it
  (\<open>updateProductInCart_canonical\<close>): it looks the line item up by comparing the printed
  identifier with the string \<open>productId\<close>. Alice's cart holds pens and the pen is in
  the catalogue; with the identifier of the pen in upper case the product is found, the
  line item is not, and the call fails with "Product not in cart".
\<close>

theorem updateProductInCart_upper_case:
  "isLineItemFor ''5F71C1CA04C69A5874E9FD45'' \<lparr>product = pen, quantity = Fin 3\<rparr>
   \<and> cartStore penDb ''alice@example.com'' = Some [\<lparr>product = pen, quantity = Fin 3\<rparr>]
   \<and> Product_findById ''5F71C1CA04C69A5874E9FD45'' penDb = Inr (Some pen)
   \<and> updateProductInCart alice ''5F71C1CA04C69A5874E9FD45'' (Fin 5) penDb =
       (Inl (ApiError BAD_REQUEST (Some ''Product not in cart'')), penDb)"
  by (simp add: isLineItemFor_def cast_upper_pen updateProductInCart_def Product_findById_def
      Cart_findOne_def penDb_def noCartDb_def alice_def pen_def ink_def)

section \<open>deleteProductFromCart\<close>

text \<open>
  Claim C9: without a cart, and with a cart that holds no line item for \<open>productId\<close>,
  \<^verbatim>\<open>deleteProductFromCart\<close> fails with status 400 and the database is unchanged. With a
  cart that holds one, it removes the line item at one position \<open>pos\<close>, which holds a
  line item for \<open>productId\<close> (and is the last that does); the line items before and
  after \<open>pos\<close> stay, in their order. A line item is for \<open>productId\<close> when
  \<open>productId\<close> denotes the \<^verbatim>\<open>_id\<close> of its product, in whatever spelling: that is the
  test \<^verbatim>\<open>_id.equals(productId)\<close> of the loop (\<open>ObjectId_equals_isLineItemFor\<close>).
\<close>

theorem deleteProductFromCart_removes_one:
  "(cartStore s (user.email u) = None \<longrightarrow>
      deleteProductFromCart u productId s =
        (Inl (ApiError BAD_REQUEST (Some ''User does not have a cart'')), s))
   \<and> (cartStore s (user.email u) = Some items
        \<and> (\<forall>obj\<in>set items. \<not> isLineItemFor productId obj) \<longrightarrow>
      deleteProductFromCart u productId s =
        (Inl (ApiError BAD_REQUEST (Some ''Product not in cart'')), s))
   \<and> (cartStore s (user.email u) = Some items
        \<and> (\<exists>obj\<in>set items. isLineItemFor productId obj) \<longrightarrow>
      (\<exists>pos<length items.
          isLineItemFor productId (items ! pos)
        \<and> (\<forall>j<length items. pos < j \<longrightarrow> \<not> isLineItemFor productId (items ! j))
        \<and> deleteProductFromCart u productId s =
            (Inr (), s\<lparr>cartStore := (cartStore s)(user.email u \<mapsto>
                          take pos items @ drop (Suc pos) items)\<rparr>)))"
proof (intro conjI impI)
  assume "cartStore s (user.email u) = None"
  then show "deleteProductFromCart u productId s =
        (Inl (ApiError BAD_REQUEST (Some ''User does not have a cart'')), s)"
    by (simp add: deleteProductFromCart_def Cart_findOne_None)
next
  assume "cartStore s (user.email u) = Some items
        \<and> (\<forall>obj\<in>set items. \<not> isLineItemFor productId obj)"
  then show "deleteProductFromCart u productId s =
        (Inl (ApiError BAD_REQUEST (Some ''Product not in cart'')), s)"
    by (simp add: deleteProductFromCart_def Cart_findOne_Some posLoop_none)
next
  assume a: "cartStore s (user.email u) = Some items
        \<and> (\<exists>obj\<in>set items. isLineItemFor productId obj)"
  then have "\<exists>obj\<in>set items. isLineItemFor productId obj" by simp
  from posLoop_last [OF this, of 0 "(False, 0)"] obtain pos where
    pos: "pos < length items" "posLoop productId items 0 (False, 0) = (True, pos)"
      "isLineItemFor productId (items ! pos)"
      "\<forall>j<length items. pos < j \<longrightarrow> \<not> isLineItemFor productId (items ! j)"
    by auto
  from a pos(2) have "deleteProductFromCart u productId s =
      (Inr (), s\<lparr>cartStore := (cartStore s)(user.email u \<mapsto>
                    take pos items @ drop (Suc pos) items)\<rparr>)"
    by (simp add: deleteProductFromCart_def Cart_findOne_Some Cart_save_def splice1_def)
  with pos(1,3,4) show "\<exists>pos<length items.
          isLineItemFor productId (items ! pos)
        \<and> (\<forall>j<length items. pos < j \<longrightarrow> \<not> isLineItemFor productId (items ! j))
        \<and> deleteProductFromCart u productId s =
            (Inr (), s\<lparr>cartStore := (cartStore s)(user.email u \<mapsto>
                          take pos items @ drop (Suc pos) items)\<rparr>)"
    by blast
qed

text \<open>
  No cart; a string that is no identifier; and the pens removed by their identifier in
  upper case, the ink left.
\<close>

theorem deleteProductFromCart_removes_one_witness:
  "deleteProductFromCart alice ''5f71c1ca04c69a5874e9fd45'' noCartDb =
     (Inl (ApiError BAD_REQUEST (Some ''User does not have a cart'')), noCartDb)
   \<and> deleteProductFromCart alice ''not-an-object-id'' penInkDb =
     (Inl (ApiError BAD_REQUEST (Some ''Product not in cart'')), penInkDb)
   \<and> deleteProductFromCart alice ''5F71C1CA04C69A5874E9FD45'' penInkDb =
     (Inr (), penInkDb\<lparr>cartStore := [''alice@example.com'' \<mapsto> [\<lparr>product = ink, quantity = Fin 1\<rparr>]]\<rparr>)"
proof -
  let ?items = "[\<lparr>product = pen, quantity = Fin 3\<rparr>, \<lparr>product = ink, quantity = Fin 1\<rparr>]"
  have none: "cartStore noCartDb (user.email alice) = None"
    by (simp add: noCartDb_def)
  have some: "cartStore penInkDb (user.email alice) = Some ?items"
    by (simp add: penInkDb_def alice_def)
  have bad: "\<forall>obj\<in>set ?items. \<not> isLineItemFor ''not-an-object-id'' obj"
    by (simp add: isLineItemFor_def castObjectId_def)
  have p1: "isLineItemFor ''5F71C1CA04C69A5874E9FD45'' \<lparr>product = pen, quantity = Fin 3\<rparr>"
    and p2: "\<not> isLineItemFor ''5F71C1CA04C69A5874E9FD45'' \<lparr>product = ink, quantity = Fin 1\<rparr>"
    by (simp_all add: isLineItemFor_def cast_upper_pen pen_def ink_def)
  from deleteProductFromCart_removes_one [of noCartDb alice "''5f71c1ca04c69a5874e9fd45''"] none
  have a: "deleteProductFromCart alice ''5f71c1ca04c69a5874e9fd45'' noCartDb =
     (Inl (ApiError BAD_REQUEST (Some ''User does not have a cart'')), noCartDb)"
    by simp
  from deleteProductFromCart_removes_one [of penInkDb alice "''not-an-object-id''" ?items] some bad
  have b: "deleteProductFromCart alice ''not-an-object-id'' penInkDb =
     (Inl (ApiError BAD_REQUEST (Some ''Product not in cart'')), penInkDb)"
    by simp
  from deleteProductFromCart_removes_one [of penInkDb alice "''5F71C1CA04C69A5874E9FD45''" ?items]
       some p1
  obtain pos where pos: "pos < length ?items"
      "isLineItemFor ''5F71C1CA04C69A5874E9FD45'' (?items ! pos)"
    and r: "deleteProductFromCart alice ''5F71C1CA04C69A5874E9FD45'' penInkDb =
      (Inr (), penInkDb\<lparr>cartStore := (cartStore penInkDb)(user.email alice \<mapsto>
                 take pos ?items @ drop (Suc pos) ?items)\<rparr>)"
    by auto
  from pos p2 have "pos = 0"
    by (cases pos) auto
  with r have c: "deleteProductFromCart alice ''5F71C1CA04C69A5874E9FD45'' penInkDb =
     (Inr (), penInkDb\<lparr>cartStore := [''alice@example.com'' \<mapsto> [\<lparr>product = ink, quantity = Fin 1\<rparr>]]\<rparr>)"
    by (simp add: penInkDb_def alice_def)
  from a b c show ?thesis by simp
qed

section \<open>Unique line items\<close>

lemma lineItemsUnique_update:
  "lineItemsUnique
     (map (\<lambda>obj. if toHexString (product_id (product obj)) = productId
                  then obj\<lparr>quantity := qty\<rparr> else obj) items)
   = lineItemsUnique items"
proof -
  have "map (\<lambda>obj. product_id (product obj))
          (map (\<lambda>obj. if toHexString (product_id (product obj)) = productId
                       then obj\<lparr>quantity := qty\<rparr> else obj) items)
        = map (\<lambda>obj. product_id (product obj)) items"
    by (induction items) auto
  then show ?thesis unfolding lineItemsUnique_def by (rule arg_cong)
qed

lemma lineItemsUnique_splice1:
  assumes "lineItemsUnique items"
  shows "lineItemsUnique (splice1 pos items)"
proof -
  let ?ids = "map (\<lambda>obj. product_id (product obj)) items"
  have d: "distinct ?ids" using assms by (simp add: lineItemsUnique_def)
  have "set (take pos ?ids) \<inter> set (drop (Suc pos) ?ids) = {}"
    using d by (rule set_take_disj_set_drop_if_distinct) simp
  with d have "distinct (take pos ?ids @ drop (Suc pos) ?ids)"
    by simp
  then show ?thesis
    by (simp add: lineItemsUnique_def splice1_def take_map drop_map)
qed

text \<open>
  \<^verbatim>\<open>updateProductInCart\<close>, \<^verbatim>\<open>deleteProductFromCart\<close> and \<^verbatim>\<open>checkout\<close> keep the line
  items of every cart unique, on every input and every outcome.
\<close>

lemma updateProductInCart_unique:
  assumes "cartUnique e s"
  shows "cartUnique e (snd (updateProductInCart u productId qty s))"
  using assms
  by (auto simp: updateProductInCart_def Cart_findOne_def Cart_save_def cartUnique_def
      lineItemsUnique_update split: option.splits sum.splits)

lemma deleteProductFromCart_unique:
  assumes "cartUnique e s"
  shows "cartUnique e (snd (deleteProductFromCart u productId s))"
  using assms
  by (auto simp: deleteProductFromCart_def Cart_findOne_def Cart_save_def cartUnique_def
      lineItemsUnique_splice1 split: option.splits prod.splits)

lemma checkout_unique:
  assumes "cartUnique e s"
  shows "cartUnique e (snd (snd (checkout cfg u s)))"
  using assms
  by (auto simp: checkout_def Cart_findOne_def Cart_save_def User_save_def cartUnique_def
      lineItemsUnique_def Let_def split: option.splits)

text \<open>
  So does \<^verbatim>\<open>addProductToCart\<close> when \<open>productId\<close> is spelt as \<^verbatim>\<open>toString()\<close> prints
  it.
\<close>

lemma addProductToCart_unique_canonical:
  assumes "canonicalId productId" and "cartUnique e s"
  shows "cartUnique e (snd (addProductToCart u productId qty s))"
proof -
  from assms(1) have cast: "castObjectId productId = Some (ObjectId productId)"
    by (simp add: canonicalId_def)
  then have f: "Product_findById productId s
      = Inr (find (\<lambda>p. product_id p = ObjectId productId) (productStore s))"
    by (simp add: Product_findById_def)
  show ?thesis
  proof (cases "cartStore s (user.email u)")
    case None
    with assms(2) show ?thesis
      by (cases "cartCreateFails s";
          cases "find (\<lambda>p. product_id p = ObjectId productId) (productStore s)")
         (simp_all add: addProductToCart_def f Cart_findOne_None Cart_create_def existLoop_def
            Cart_save_def cartUnique_def lineItemsUnique_def)
  next
    case (Some items)
    show ?thesis
    proof (cases "\<exists>obj\<in>set items. toHexString (product_id (product obj)) = productId")
      case True
      with Some assms(2) cast show ?thesis by (simp add: addProductToCart_in_cart)
    next
      case False
      show ?thesis
      proof (cases "find (\<lambda>p. product_id p = ObjectId productId) (productStore s)")
        case None
        with Some False assms(2) show ?thesis
          by (simp add: addProductToCart_def f Cart_findOne_Some existLoop_iff)
      next
        case (Some p)
        then have pid: "product_id p = ObjectId productId" by (auto simp: find_Some_iff)
        have fresh: "product_id p \<notin> (\<lambda>obj. product_id (product obj)) ` set items"
        proof
          assume "product_id p \<in> (\<lambda>obj. product_id (product obj)) ` set items"
          with pid obtain obj where obj: "obj \<in> set items"
            "product_id (product obj) = ObjectId productId"
            by auto
          then have "toHexString (product_id (product obj)) = productId" by simp
          with False obj(1) show False by blast
        qed
        from assms(2) \<open>cartStore s (user.email u) = Some items\<close>
        have "e = user.email u \<Longrightarrow> lineItemsUnique items" by (simp add: cartUnique_def)
        with fresh assms(2) Some False \<open>cartStore s (user.email u) = Some items\<close> show ?thesis
          by (simp add: addProductToCart_def f Cart_findOne_Some existLoop_iff Cart_save_def
              cartUnique_def lineItemsUnique_def)
      qed
    qed
  qed
qed

text \<open>
  Claim C10: when the cart of the user has at most one line item per product id, it still
  has after each of \<^verbatim>\<open>addProductToCart\<close>, \<^verbatim>\<open>updateProductInCart\<close>,
  \<^verbatim>\<open>deleteProductFromCart\<close> and \<^verbatim>\<open>checkout\<close>, whether the call succeeds or fails.

  This holds of the last three (\<open>updateProductInCart_unique\<close>,
  \<open>deleteProductFromCart_unique\<close>, \<open>checkout_unique\<close>), and of \<^verbatim>\<open>addProductToCart\<close>
  when \<open>productId\<close> is spelt as \<^verbatim>\<open>toString()\<close> prints it
  (\<open>addProductToCart_unique_canonical\<close>). It does not hold of \<^verbatim>\<open>addProductToCart\<close> in
  general: from Alice's cart of pens, adding the pen by its identifier in upper case
  succeeds and leaves two line items with the \<^verbatim>\<open>_id\<close> of the pen.
\<close>

theorem addProductToCart_breaks_uniqueness:
  "cartUnique ''alice@example.com'' penDb
   \<and> fst (addProductToCart alice ''5F71C1CA04C69A5874E9FD45'' (Fin 5) penDb) =
       Inr \<lparr>email = ''alice@example.com'',
            cartItems = [\<lparr>product = pen, quantity = Fin 3\<rparr>, \<lparr>product = pen, quantity = Fin 5\<rparr>]\<rparr>
   \<and> \<not> cartUnique ''alice@example.com''
         (snd (addProductToCart alice ''5F71C1CA04C69A5874E9FD45'' (Fin 5) penDb))"
  by (simp add: cartUnique_def lineItemsUnique_def cast_upper_pen addProductToCart_def
      Product_findById_def Cart_findOne_def Cart_save_def existLoop_def penDb_def noCartDb_def
      alice_def pen_def ink_def)

end
